theory Spec2Isabelle
  imports Main "HOL-Library.Sublist"
begin

section \<open>Exceptions and results\<close>

text \<open>
  The script \<^verbatim>\<open>scripts/merge_model.py\<close> catches with \<^verbatim>\<open>except Exception as e\<close>.
  Python separates the exceptions that derive from \<^verbatim>\<open>Exception\<close> from those that derive
  from \<^verbatim>\<open>BaseException\<close> only (\<^verbatim>\<open>KeyboardInterrupt\<close>, \<^verbatim>\<open>SystemExit\<close>,
  \<^verbatim>\<open>GeneratorExit\<close>); the handler sees the first kind only. The string describes the exception: it is what
  \<^verbatim>\<open>str(e)\<close> gives the handler.
\<close>

datatype exn = PyException string | PyBaseException string

type_synonym 'a result = "exn + 'a"

section \<open>The file system\<close>

text \<open>
  A file system maps a resolved path (the list of its component names, with the
  component \<^verbatim>\<open>/\<close> in front of an absolute path) to a node. The working directory (the
  empty list) and the root are directories. Resolution is lexical: empty components and
  \<^verbatim>\<open>.\<close> are dropped; symbolic links, \<^verbatim>\<open>..\<close>, permissions and quotas are not modelled.
  A file holds either the JSON document of a flat string dictionary (the keys in
  insertion order, as \<^verbatim>\<open>json.dump\<close> writes them) or opaque data of a given size in bytes.
\<close>

datatype content = Json_object "(string \<times> string) list" | Blob nat

datatype node = Dir | File content

type_synonym filesys = "string list \<rightharpoonup> node"

fun split_sep :: "string \<Rightarrow> string list" where
  "split_sep [] = [[]]"
| "split_sep (c # cs) =
     (if c = CHR ''/'' then [] # split_sep cs
      else (case split_sep cs of [] \<Rightarrow> [[c]] | w # ws \<Rightarrow> (c # w) # ws))"

definition components :: "string \<Rightarrow> string list" where
  "components p = filter (\<lambda>c. c \<noteq> [] \<and> c \<noteq> ''.'') (split_sep p)"

definition resolve :: "string \<Rightarrow> string list" where
  "resolve p = (case p of [] \<Rightarrow> [] | c # _ \<Rightarrow> if c = CHR ''/'' then [''/''] else []) @ components p"

definition stat :: "filesys \<Rightarrow> string list \<Rightarrow> node option" where
  "stat fsys cs = (if cs = [] \<or> cs = [''/''] then Some Dir else fsys cs)"

text \<open>\<^verbatim>\<open>os.path.join(a, b)\<close> of \<^verbatim>\<open>posixpath\<close>, for two arguments.\<close>

definition os_path_join :: "string \<Rightarrow> string \<Rightarrow> string" where
  "os_path_join a b =
     (if b \<noteq> [] \<and> hd b = CHR ''/'' then b
      else if a = [] \<or> last a = CHR ''/'' then a @ b
      else a @ ''/'' @ b)"

text \<open>\<^verbatim>\<open>os.path.exists\<close>: true for a file or a directory, false for the empty string.\<close>

definition path_exists :: "filesys \<Rightarrow> string \<Rightarrow> bool" where
  "path_exists fsys p = (p \<noteq> [] \<and> stat fsys (resolve p) \<noteq> None)"

definition quoted :: "string \<Rightarrow> string" where
  "quoted p = [CHR 0x27] @ p @ [CHR 0x27]"

definition FileNotFoundError :: "string \<Rightarrow> exn" where
  "FileNotFoundError p = PyException (''[Errno 2] No such file or directory: '' @ quoted p)"

definition FileExistsError :: "string \<Rightarrow> exn" where
  "FileExistsError p = PyException (''[Errno 17] File exists: '' @ quoted p)"

definition NotADirectoryError :: "string \<Rightarrow> exn" where
  "NotADirectoryError p = PyException (''[Errno 20] Not a directory: '' @ quoted p)"

definition IsADirectoryError :: "string \<Rightarrow> exn" where
  "IsADirectoryError p = PyException (''[Errno 21] Is a directory: '' @ quoted p)"

text \<open>
  \<^verbatim>\<open>os.makedirs(name, exist_ok=ok)\<close>: every missing directory on the way to \<^verbatim>\<open>name\<close> is
  created, from the outermost one; a file on the way raises. \<open>mkdirs\<close> walks the
  components still to come (\<open>todo\<close>) below the directory \<open>pre\<close>.
\<close>

fun mkdirs :: "string \<Rightarrow> filesys \<Rightarrow> string list \<Rightarrow> string list \<Rightarrow> unit result \<times> filesys" where
  "mkdirs name fsys pre [] = (Inr (), fsys)"
| "mkdirs name fsys pre (c # todo) =
     (case stat fsys (pre @ [c]) of
        Some Dir \<Rightarrow> mkdirs name fsys (pre @ [c]) todo
      | Some (File d) \<Rightarrow>
          (Inl (if todo = [] then FileExistsError name else NotADirectoryError name), fsys)
      | None \<Rightarrow> mkdirs name (fsys(pre @ [c] \<mapsto> Dir)) (pre @ [c]) todo)"

definition makedirs :: "string \<Rightarrow> bool \<Rightarrow> filesys \<Rightarrow> unit result \<times> filesys" where
  "makedirs name exist_ok fsys =
     (if name = [] then (Inl (FileNotFoundError name), fsys)
      else if stat fsys (resolve name) = Some Dir then
        (if exist_ok then (Inr (), fsys) else (Inl (FileExistsError name), fsys))
      else mkdirs name fsys [] (resolve name))"

text \<open>
  \<^verbatim>\<open>with open(name, "w") as f: json.dump(d, f, indent=2)\<close>: the file is created or
  truncated and then holds the document of \<open>d\<close>.
\<close>

definition write_json :: "string \<Rightarrow> (string \<times> string) list \<Rightarrow> filesys \<Rightarrow> unit result \<times> filesys" where
  "write_json name d fsys =
     (if name = [] then (Inl (FileNotFoundError name), fsys)
      else if stat fsys (resolve name) = Some Dir then (Inl (IsADirectoryError name), fsys)
      else (case stat fsys (butlast (resolve name)) of
              None \<Rightarrow> (Inl (FileNotFoundError name), fsys)
            | Some (File c) \<Rightarrow> (Inl (NotADirectoryError name), fsys)
            | Some Dir \<Rightarrow> (Inr (), fsys(resolve name \<mapsto> File (Json_object d)))))"

section \<open>The external libraries\<close>

text \<open>
  \<^verbatim>\<open>transformers\<close> and \<^verbatim>\<open>peft\<close> are not part of the repository: their six operations
  that the script calls are parameters. Each one reads and writes the world (the file
  system and an external state \<open>'x\<close>: memory, devices, network, caches) and returns a
  value or raises; what it wrote before raising stays written. \<open>'m\<close> is a plain model,
  \<open>'p\<close> a model with an adapter attached, \<open>'t\<close> a tokenizer.
\<close>

type_synonym 'x world = "filesys \<times> 'x"

datatype dtype = Float16 | Float32 | BFloat16

record load_options =
  torch_dtype :: dtype
  device_map :: string
  trust_remote_code :: bool
  low_cpu_mem_usage :: bool

record ('m, 'p, 't, 'x) library =
  model_from_pretrained :: "string \<Rightarrow> load_options \<Rightarrow> 'x world \<Rightarrow> 'm result \<times> 'x world"
  peft_from_pretrained :: "'m \<Rightarrow> string \<Rightarrow> 'x world \<Rightarrow> 'p result \<times> 'x world"
  merge_and_unload :: "'p \<Rightarrow> 'x world \<Rightarrow> 'm result \<times> 'x world"
  save_pretrained :: "'m \<Rightarrow> string \<Rightarrow> bool \<Rightarrow> string \<Rightarrow> 'x world \<Rightarrow> unit result \<times> 'x world"
  tokenizer_from_pretrained :: "string \<Rightarrow> 'x world \<Rightarrow> 't result \<times> 'x world"
  tokenizer_save_pretrained :: "'t \<Rightarrow> string \<Rightarrow> 'x world \<Rightarrow> unit result \<times> 'x world"

section \<open>The state of a run\<close>

text \<open>
  The trace holds, in order, what the script itself printed and every call it made
  outside itself, with the arguments it passed; a call is recorded when it is made,
  whatever it returns.
\<close>

datatype call =
    Model_from_pretrained string load_options
  | Peft_from_pretrained string
  | Merge_and_unload
  | Makedirs string bool
  | Save_pretrained string bool string
  | Tokenizer_from_pretrained string
  | Tokenizer_save_pretrained string
  | Open_write string
  | Path_exists string

datatype event = Stdout string | Stderr string | Call call

record 'x state =
  fs :: filesys
  ext :: 'x
  trace :: "event list"

type_synonym ('a, 'x) action = "'x state \<Rightarrow> 'a result \<times> 'x state"

definition emit :: "event \<Rightarrow> 'x state \<Rightarrow> 'x state" where
  "emit e s = s\<lparr>trace := trace s @ [e]\<rparr>"

definition ret :: "'a \<Rightarrow> ('a, 'x) action" where
  "ret v s = (Inr v, s)"

definition bind :: "('a, 'x) action \<Rightarrow> ('a \<Rightarrow> ('b, 'x) action) \<Rightarrow> ('b, 'x) action" where
  "bind m k s = (case m s of (Inl e, s') \<Rightarrow> (Inl e, s') | (Inr v, s') \<Rightarrow> k v s')"

definition print :: "string \<Rightarrow> (unit, 'x) action" where
  "print msg s = (Inr (), emit (Stdout msg) s)"

definition extern :: "call \<Rightarrow> ('x world \<Rightarrow> 'a result \<times> 'x world) \<Rightarrow> ('a, 'x) action" where
  "extern c f s =
     (case f (fs s, ext s) of
        (r, (fsys, x)) \<Rightarrow> (r, \<lparr>fs = fsys, ext = x, trace = trace s @ [Call c]\<rparr>))"

definition os_call :: "call \<Rightarrow> (filesys \<Rightarrow> 'a result \<times> filesys) \<Rightarrow> ('a, 'x) action" where
  "os_call c f s =
     (case f (fs s) of
        (r, fsys) \<Rightarrow> (r, \<lparr>fs = fsys, ext = ext s, trace = trace s @ [Call c]\<rparr>))"

definition os_makedirs :: "string \<Rightarrow> bool \<Rightarrow> (unit, 'x) action" where
  "os_makedirs name exist_ok = os_call (Makedirs name exist_ok) (makedirs name exist_ok)"

definition dump_json :: "string \<Rightarrow> (string \<times> string) list \<Rightarrow> (unit, 'x) action" where
  "dump_json name d = os_call (Open_write name) (write_json name d)"

definition os_path_exists :: "string \<Rightarrow> 'x state \<Rightarrow> bool \<times> 'x state" where
  "os_path_exists p s = (path_exists (fs s) p, emit (Call (Path_exists p)) s)"

section \<open>The messages\<close>

text \<open>The pictographs of the messages, as the bytes of their UTF-8 encoding.\<close>

definition sym_cycle :: string where
  "sym_cycle = [CHR 0xF0, CHR 0x9F, CHR 0x94, CHR 0x84]"

definition sym_check :: string where
  "sym_check = [CHR 0xE2, CHR 0x9C, CHR 0x85]"

definition sym_disk :: string where
  "sym_disk = [CHR 0xF0, CHR 0x9F, CHR 0x92, CHR 0xBE]"

definition sym_cross :: string where
  "sym_cross = [CHR 0xE2, CHR 0x9D, CHR 0x8C]"

definition rule60 :: string where
  "rule60 = replicate 60 CHR ''=''"

fun join_str :: "string \<Rightarrow> string list \<Rightarrow> string" where
  "join_str sep [] = []"
| "join_str sep [x] = x"
| "join_str sep (x # y # ys) = x @ sep @ join_str sep (y # ys)"

section \<open>merge_lora_adapter\<close>

definition base_load_options :: load_options where
  "base_load_options =
     \<lparr>torch_dtype = Float16, device_map = ''auto'', trust_remote_code = True,
      low_cpu_mem_usage = True\<rparr>"

definition metadata :: "string \<Rightarrow> string \<Rightarrow> (string \<times> string) list" where
  "metadata base_model_path adapter_path =
     [(''base_model'', base_model_path),
      (''adapter_path'', adapter_path),
      (''merged_by'', ''rag-dashboard''),
      (''dtype'', ''float16'')]"

text \<open>Lines 26 to 33: the base model is loaded.\<close>

definition stage1 :: "('m, 'p, 't, 'x) library \<Rightarrow> string \<Rightarrow> ('m, 'x) action" where
  "stage1 L base_model_path =
     bind (extern (Model_from_pretrained base_model_path base_load_options)
             (model_from_pretrained L base_model_path base_load_options))
       (\<lambda>base_model.
     bind (print (sym_check @ '' Base model loaded''))
       (\<lambda>_. ret base_model))"

text \<open>Lines 35 to 38: the adapter is loaded onto the base model.\<close>

definition stage2 :: "('m, 'p, 't, 'x) library \<Rightarrow> string \<Rightarrow> 'm \<Rightarrow> ('p, 'x) action" where
  "stage2 L adapter_path base_model =
     bind (print (sym_cycle @ '' Loading LoRA adapter: '' @ adapter_path))
       (\<lambda>_.
     bind (extern (Peft_from_pretrained adapter_path)
             (peft_from_pretrained L base_model adapter_path))
       (\<lambda>model.
     bind (print (sym_check @ '' Adapter loaded''))
       (\<lambda>_. ret model)))"

text \<open>Lines 40 to 43: the adapter weights are merged into the base model.\<close>

definition stage3 :: "('m, 'p, 't, 'x) library \<Rightarrow> 'p \<Rightarrow> ('m, 'x) action" where
  "stage3 L model =
     bind (print (sym_cycle @ '' Merging adapter weights into base model...''))
       (\<lambda>_.
     bind (extern Merge_and_unload (merge_and_unload L model))
       (\<lambda>merged_model.
     bind (print (sym_check @ '' Weights merged''))
       (\<lambda>_. ret merged_model)))"

text \<open>Lines 45 to 53: the output directory is made and the merged model saved.\<close>

definition stage4 :: "('m, 'p, 't, 'x) library \<Rightarrow> string \<Rightarrow> 'm \<Rightarrow> (unit, 'x) action" where
  "stage4 L output_path merged_model =
     bind (print (sym_disk @ '' Saving merged model to: '' @ output_path))
       (\<lambda>_.
     bind (os_makedirs output_path True)
       (\<lambda>_.
     bind (extern (Save_pretrained output_path True ''2GB'')
             (save_pretrained L merged_model output_path True ''2GB''))
       (\<lambda>_. print (sym_check @ '' Model saved''))))"

text \<open>Lines 55 to 59: the tokenizer is loaded and saved.\<close>

definition stage5 :: "('m, 'p, 't, 'x) library \<Rightarrow> string \<Rightarrow> string \<Rightarrow> (unit, 'x) action" where
  "stage5 L adapter_path output_path =
     bind (print (sym_disk @ '' Saving tokenizer...''))
       (\<lambda>_.
     bind (extern (Tokenizer_from_pretrained adapter_path)
             (tokenizer_from_pretrained L adapter_path))
       (\<lambda>tokenizer.
     bind (extern (Tokenizer_save_pretrained output_path)
             (tokenizer_save_pretrained L tokenizer output_path))
       (\<lambda>_. print (sym_check @ '' Tokenizer saved''))))"

text \<open>Lines 62 to 70: the metadata is written.\<close>

definition stage6 :: "string \<Rightarrow> string \<Rightarrow> string \<Rightarrow> (unit, 'x) action" where
  "stage6 base_model_path adapter_path output_path =
     dump_json (os_path_join output_path ''merge_info.json'')
       (metadata base_model_path adapter_path)"

text \<open>The body of the \<^verbatim>\<open>try\<close> statement, lines 25 to 73.\<close>

definition merge_try ::
  "('m, 'p, 't, 'x) library \<Rightarrow> string \<Rightarrow> string \<Rightarrow> string \<Rightarrow> (unit, 'x) action" where
  "merge_try L base_model_path adapter_path output_path =
     bind (stage1 L base_model_path)
       (\<lambda>base_model.
     bind (stage2 L adapter_path base_model)
       (\<lambda>model.
     bind (stage3 L model)
       (\<lambda>merged_model.
     bind (stage4 L output_path merged_model)
       (\<lambda>_.
     bind (stage5 L adapter_path output_path)
       (\<lambda>_.
     bind (stage6 base_model_path adapter_path output_path)
       (\<lambda>_. print (sym_check @ '' Successfully merged model saved to: '' @ output_path)))))))"

text \<open>Line 23: the message before the \<^verbatim>\<open>try\<close> statement; its body starts in this state.\<close>

definition entry_state :: "string \<Rightarrow> 'x state \<Rightarrow> 'x state" where
  "entry_state base_model_path s =
     emit (Stdout (sym_cycle @ '' Loading base model: '' @ base_model_path)) s"

text \<open>
  The function: \<open>Inr True\<close> and \<open>Inr False\<close> are its two return values, \<open>Inl e\<close> is
  an exception that leaves it.
\<close>

definition merge_lora_adapter ::
  "('m, 'p, 't, 'x) library \<Rightarrow> string \<Rightarrow> string \<Rightarrow> string \<Rightarrow> (bool, 'x) action" where
  "merge_lora_adapter L base_model_path adapter_path output_path s =
     (case merge_try L base_model_path adapter_path output_path (entry_state base_model_path s) of
        (Inr u, s') \<Rightarrow> (Inr True, s')
      | (Inl (PyException d), s') \<Rightarrow>
          (Inr False, emit (Stderr (sym_cross @ '' Error during merge: '' @ d)) s')
      | (Inl (PyBaseException d), s') \<Rightarrow> (Inl (PyBaseException d), s'))"

section \<open>The command line\<close>

text \<open>
  How the process ends: with an exit status through \<^verbatim>\<open>sys.exit\<close>, or with an exception
  that nothing caught.
\<close>

datatype status = Exit nat | Uncaught exn

definition prints :: "string list \<Rightarrow> 'x state \<Rightarrow> 'x state" where
  "prints msgs s = foldl (\<lambda>s' msg. emit (Stdout msg) s') s msgs"

definition dquoted :: "string \<Rightarrow> string" where
  "dquoted p = [CHR 0x22] @ p @ [CHR 0x22]"

definition usage_lines :: "string list" where
  "usage_lines =
     [''Usage: python merge_model.py <base_model> <adapter_path> <output_path>'',
      CHR 0x0A # ''Example:'',
      ''  python merge_model.py '' @ dquoted ''TinyLlama/TinyLlama-1.1B-Chat-v1.0'' @ '' ''
        @ dquoted ''./neo_final_model'' @ '' '' @ dquoted ''./merged_neo'']"

definition required_files :: "string list" where
  "required_files = [''adapter_config.json'', ''adapter_model.safetensors'']"

text \<open>
  Line 97: the required files for which \<^verbatim>\<open>os.path.exists\<close> is false, in the order of
  \<open>required_files\<close>.
\<close>

fun find_missing :: "string \<Rightarrow> string list \<Rightarrow> 'x state \<Rightarrow> string list \<times> 'x state" where
  "find_missing adapter_path [] s = ([], s)"
| "find_missing adapter_path (f # rest) s =
     (case os_path_exists (os_path_join adapter_path f) s of
        (found, s1) \<Rightarrow>
          (case find_missing adapter_path rest s1 of
             (missing, s2) \<Rightarrow> (if \<not> found then f # missing else missing, s2)))"

definition banner_lines :: "string \<Rightarrow> string \<Rightarrow> string \<Rightarrow> string list" where
  "banner_lines base_model_path adapter_path output_path =
     [rule60, ''Fine-Tuned Model Merger'', rule60,
      ''Base Model: '' @ base_model_path,
      ''Adapter: '' @ adapter_path,
      ''Output: '' @ output_path,
      rule60, []]"

definition complete_lines :: "string \<Rightarrow> string list" where
  "complete_lines output_path =
     [[], rule60, sym_check @ '' MERGE COMPLETE!'', rule60, [],
      ''Next steps:'',
      ''1. Convert to GGUF: python llama.cpp/convert.py '' @ dquoted output_path
        @ '' --outfile model.gguf'',
      ''2. Import to Ollama: ollama create mymodel -f Modelfile'',
      []]"

definition failed_lines :: "string list" where
  "failed_lines = [[], rule60, sym_cross @ '' MERGE FAILED'', rule60]"

definition main :: "('m, 'p, 't, 'x) library \<Rightarrow> string list \<Rightarrow> 'x state \<Rightarrow> status \<times> 'x state" where
  "main L argv s =
     (if length argv < 4 then (Exit 1, prints usage_lines s)
      else
        let base_model_path = argv ! 1; adapter_path = argv ! 2; output_path = argv ! 3 in
        (case os_path_exists adapter_path s of
           (False, s1) \<Rightarrow>
             (Exit 1, emit (Stderr (sym_cross @ '' Adapter path does not exist: '' @ adapter_path)) s1)
         | (True, s1) \<Rightarrow>
             (case find_missing adapter_path required_files s1 of
                (missing_files, s2) \<Rightarrow>
                  if missing_files \<noteq> [] then
                    (Exit 1,
                     emit (Stderr (sym_cross @ '' Missing required files in adapter directory: ''
                                   @ join_str '', '' missing_files)) s2)
                  else
                    (case merge_lora_adapter L base_model_path adapter_path output_path
                            (prints (banner_lines base_model_path adapter_path output_path) s2) of
                       (Inr True, s3) \<Rightarrow> (Exit 0, prints (complete_lines output_path) s3)
                     | (Inr False, s3) \<Rightarrow> (Exit 1, prints failed_lines s3)
                     | (Inl e, s3) \<Rightarrow> (Uncaught e, s3)))))"

text \<open>
  The required files that the adapter directory lacks, and the state in which \<open>main\<close>
  calls \<open>merge_lora_adapter\<close> once its checks have passed (lines 91 to 110).
\<close>

definition missing_files :: "string \<Rightarrow> filesys \<Rightarrow> string list" where
  "missing_files adapter_path fsys =
     filter (\<lambda>f. \<not> path_exists fsys (os_path_join adapter_path f)) required_files"

definition merge_start :: "string list \<Rightarrow> 'x state \<Rightarrow> 'x state" where
  "merge_start argv s =
     prints (banner_lines (argv ! 1) (argv ! 2) (argv ! 3))
       (snd (find_missing (argv ! 2) required_files (snd (os_path_exists (argv ! 2) s))))"

section \<open>What a run did\<close>

text \<open>The calls among the events, and the events and calls that a run added to the trace.\<close>

fun calls_of :: "event list \<Rightarrow> call list" where
  "calls_of [] = []"
| "calls_of (Call c # es) = c # calls_of es"
| "calls_of (Stdout m # es) = calls_of es"
| "calls_of (Stderr m # es) = calls_of es"

definition new_events :: "'x state \<Rightarrow> 'x state \<Rightarrow> event list" where
  "new_events s s' = drop (length (trace s)) (trace s')"

definition new_calls :: "'x state \<Rightarrow> 'x state \<Rightarrow> call list" where
  "new_calls s s' = calls_of (new_events s s')"

text \<open>The calls of a complete merge, in the order of the source text.\<close>

definition pipeline_calls :: "string \<Rightarrow> string \<Rightarrow> string \<Rightarrow> call list" where
  "pipeline_calls base_model_path adapter_path output_path =
     [Model_from_pretrained base_model_path base_load_options,
      Peft_from_pretrained adapter_path,
      Merge_and_unload,
      Makedirs output_path True,
      Save_pretrained output_path True ''2GB'',
      Tokenizer_from_pretrained adapter_path,
      Tokenizer_save_pretrained output_path,
      Open_write (os_path_join output_path ''merge_info.json'')]"

fun is_write_call :: "call \<Rightarrow> bool" where
  "is_write_call (Makedirs p ok) = True"
| "is_write_call (Save_pretrained p safe shard) = True"
| "is_write_call (Tokenizer_save_pretrained p) = True"
| "is_write_call (Open_write p) = True"
| "is_write_call c = False"



text \<open>
  The first stage (1 to 6) of the \<^verbatim>\<open>try\<close> body that raises, with the exception and the
  state at the raise; \<open>None\<close> when all six return.
\<close>

definition stage_failure ::
  "('m, 'p, 't, 'x) library \<Rightarrow> string \<Rightarrow> string \<Rightarrow> string \<Rightarrow> 'x state \<Rightarrow>
     (nat \<times> exn \<times> 'x state) option" where
  "stage_failure L base_model_path adapter_path output_path s =
     (case stage1 L base_model_path s of
        (Inl e, t) \<Rightarrow> Some (1, e, t)
      | (Inr base_model, s1) \<Rightarrow>
     (case stage2 L adapter_path base_model s1 of
        (Inl e, t) \<Rightarrow> Some (2, e, t)
      | (Inr model, s2) \<Rightarrow>
     (case stage3 L model s2 of
        (Inl e, t) \<Rightarrow> Some (3, e, t)
      | (Inr merged_model, s3) \<Rightarrow>
     (case stage4 L output_path merged_model s3 of
        (Inl e, t) \<Rightarrow> Some (4, e, t)
      | (Inr u4, s4) \<Rightarrow>
     (case stage5 L adapter_path output_path s4 of
        (Inl e, t) \<Rightarrow> Some (5, e, t)
      | (Inr u5, s5) \<Rightarrow>
     (case stage6 base_model_path adapter_path output_path s5 of
        (Inl e, t) \<Rightarrow> Some (6, e, t)
      | (Inr u6, s6) \<Rightarrow> None))))))"

section \<open>Assumptions on the external libraries\<close>


text \<open>
  What the theorems on the file system assume of the libraries, each assumption named
  where it is used: an operation that only reads leaves every node as it was; a save
  into a directory changes nodes at or below that directory only; an operation leaves
  an output path that can be used again in that condition.
\<close>

definition reads_only :: "('x world \<Rightarrow> 'a result \<times> 'x world) \<Rightarrow> bool" where
  "reads_only f = (\<forall>w. fst (snd (f w)) = fst w)"



definition loads_read_only :: "('m, 'p, 't, 'x) library \<Rightarrow> bool" where
  "loads_read_only L =
     ((\<forall>p opts. reads_only (model_from_pretrained L p opts)) \<and>
      (\<forall>m p. reads_only (peft_from_pretrained L m p)) \<and>
      (\<forall>m. reads_only (merge_and_unload L m)) \<and>
      (\<forall>p. reads_only (tokenizer_from_pretrained L p)))"




section \<open>Stand-ins for the libraries\<close>

text \<open>
  Libraries to run the script on: a model is named by where it came from, the saved
  weights are one file of a thousand bytes, the saved tokenizer one file of a hundred.
  A save raises where a directory has the name of its file.
\<close>

definition put_file :: "string list \<Rightarrow> content \<Rightarrow> 'x world \<Rightarrow> unit result \<times> 'x world" where
  "put_file cs c w =
     (if fst w cs = Some Dir then (Inl (PyException ''Is a directory''), w)
      else (Inr (), ((fst w)(cs \<mapsto> File c), snd w)))"

definition stub_library :: "(string, string \<times> string, string, unit) library" where
  "stub_library =
     \<lparr>model_from_pretrained = (\<lambda>p opts w. (Inr p, w)),
      peft_from_pretrained = (\<lambda>m p w. (Inr (m, p), w)),
      merge_and_unload = (\<lambda>(m, p) w. (Inr (m @ ''+'' @ p), w)),
      save_pretrained = (\<lambda>m d safe shard.
         put_file (resolve d @ [''model.safetensors'']) (Blob 1000)),
      tokenizer_from_pretrained = (\<lambda>p w. (Inr p, w)),
      tokenizer_save_pretrained = (\<lambda>t d.
         put_file (resolve d @ [''tokenizer.json'']) (Blob 100))\<rparr>"

text \<open>The user interrupts the load of the base model.\<close>

definition interrupted_library :: "(string, string \<times> string, string, unit) library" where
  "interrupted_library =
     stub_library\<lparr>model_from_pretrained :=
       (\<lambda>p opts w. (Inl (PyBaseException ''KeyboardInterrupt''), w))\<rparr>"

text \<open>The merge runs out of memory.\<close>

definition exhausted_library :: "(string, string \<times> string, string, unit) library" where
  "exhausted_library =
     stub_library\<lparr>merge_and_unload :=
       (\<lambda>m w. (Inl (PyException ''CUDA out of memory''), w))\<rparr>"

text \<open>
  The base model is downloaded into a cache directory, and the adapter then does not
  fit it.
\<close>

definition caching_library :: "(string, string \<times> string, string, unit) library" where
  "caching_library =
     stub_library\<lparr>model_from_pretrained :=
       (\<lambda>p opts (fsys, x). (Inr p, (fsys([''cache'', ''model.bin''] \<mapsto> File (Blob 1000)), x))),
      peft_from_pretrained :=
       (\<lambda>m p w. (Inl (PyException ''size mismatch''), w))\<rparr>"



text \<open>A working directory that holds a complete adapter directory \<^verbatim>\<open>lora\<close>.\<close>

definition adapter_state :: "unit state" where
  "adapter_state =
     \<lparr>fs = [[''lora''] \<mapsto> Dir,
            [''lora'', ''adapter_config.json''] \<mapsto> File (Blob 10),
            [''lora'', ''adapter_model.safetensors''] \<mapsto> File (Blob 20)],
      ext = (), trace = []\<rparr>"


section \<open>Auxiliary notions for the proofs\<close>

text \<open>
  An action performs the calls \<open>cs\<close>: it only appends to the trace, all of \<open>cs\<close> in
  order when it returns and a prefix of \<open>cs\<close> when it raises. An action is confined to
  \<open>root\<close>: whatever its outcome, it changes the file system within \<open>root\<close> only.
\<close>

definition performs :: "call list \<Rightarrow> ('a, 'x) action \<Rightarrow> bool" where
  "performs cs m =
     (\<forall>s r s'. m s = (r, s') \<longrightarrow>
        (\<exists>evs. trace s' = trace s @ evs \<and>
           (case r of Inl e \<Rightarrow> prefix (calls_of evs) cs | Inr v \<Rightarrow> calls_of evs = cs)))"


section \<open>Lemmas on the actions\<close>

lemma bind_cases:
  "bind m k s = (r, s') \<Longrightarrow>
     (\<exists>e. m s = (Inl e, s') \<and> r = Inl e) \<or> (\<exists>v t. m s = (Inr v, t) \<and> k v t = (r, s'))"
  by (auto simp: bind_def split: prod.splits sum.splits)

lemma calls_of_append: "calls_of (xs @ ys) = calls_of xs @ calls_of ys"
  by (induction xs rule: calls_of.induct) simp_all

lemma new_calls_append: "trace s' = trace s @ evs \<Longrightarrow> new_calls s s' = calls_of evs"
  by (simp add: new_calls_def new_events_def)

lemma performs_ret: "performs [] (ret v)"
  by (simp add: performs_def ret_def)

lemma performs_print: "performs [] (print msg)"
  by (simp add: performs_def print_def emit_def)

lemma performs_extern: "performs [c] (extern c f)"
  by (auto simp: performs_def extern_def split: prod.splits sum.splits)

lemma performs_os_call: "performs [c] (os_call c f)"
  by (auto simp: performs_def os_call_def split: prod.splits sum.splits)

lemma performs_bind:
  assumes m: "performs cs1 m" and k: "\<And>v. performs cs2 (k v)"
  shows "performs (cs1 @ cs2) (bind m k)"
  unfolding performs_def
proof (intro allI impI)
  fix s r s'
  assume run: "bind m k s = (r, s')"
  from bind_cases [OF run] show "\<exists>evs. trace s' = trace s @ evs \<and>
           (case r of Inl e \<Rightarrow> prefix (calls_of evs) (cs1 @ cs2) | Inr v \<Rightarrow> calls_of evs = cs1 @ cs2)"
  proof
    assume "\<exists>e. m s = (Inl e, s') \<and> r = Inl e"
    then obtain e where ms: "m s = (Inl e, s')" and r: "r = Inl e" by blast
    from m ms obtain evs where "trace s' = trace s @ evs" "prefix (calls_of evs) cs1"
      unfolding performs_def by fastforce
    then show ?thesis using r by (auto intro: prefix_prefix)
  next
    assume "\<exists>v t. m s = (Inr v, t) \<and> k v t = (r, s')"
    then obtain v t where ms: "m s = (Inr v, t)" and kt: "k v t = (r, s')" by blast
    from m ms obtain e1 where e1: "trace t = trace s @ e1" "calls_of e1 = cs1"
      unfolding performs_def by fastforce
    from k [of v] kt obtain e2 where e2: "trace s' = trace t @ e2"
      "case r of Inl e \<Rightarrow> prefix (calls_of e2) cs2 | Inr v \<Rightarrow> calls_of e2 = cs2"
      unfolding performs_def by fastforce
    have "trace s' = trace s @ (e1 @ e2)" using e1 e2 by simp
    moreover have "case r of Inl e \<Rightarrow> prefix (calls_of (e1 @ e2)) (cs1 @ cs2)
                     | Inr v \<Rightarrow> calls_of (e1 @ e2) = cs1 @ cs2"
      using e1 e2 by (cases r) (simp_all add: calls_of_append)
    ultimately show ?thesis by blast
  qed
qed

lemma performs_stage1: "performs [Model_from_pretrained b base_load_options] (stage1 L b)"
  unfolding stage1_def
  using performs_bind [OF performs_extern, OF performs_bind [OF performs_print, OF performs_ret]]
  by simp


lemma performs_stage2: "performs [Peft_from_pretrained a] (stage2 L a m)"
  unfolding stage2_def
  using performs_bind [OF performs_print, OF performs_bind [OF performs_extern,
          OF performs_bind [OF performs_print, OF performs_ret]]]
  by simp

lemma performs_stage3: "performs [Merge_and_unload] (stage3 L p)"
  unfolding stage3_def
  using performs_bind [OF performs_print, OF performs_bind [OF performs_extern,
          OF performs_bind [OF performs_print, OF performs_ret]]]
  by simp

lemma performs_stage4:
  "performs [Makedirs out True, Save_pretrained out True ''2GB''] (stage4 L out m)"
  unfolding stage4_def os_makedirs_def
  using performs_bind [OF performs_print, OF performs_bind [OF performs_os_call,
          OF performs_bind [OF performs_extern, OF performs_print]]]
  by simp

lemma performs_stage5:
  "performs [Tokenizer_from_pretrained a, Tokenizer_save_pretrained out] (stage5 L a out)"
  unfolding stage5_def
  using performs_bind [OF performs_print, OF performs_bind [OF performs_extern,
          OF performs_bind [OF performs_extern, OF performs_print]]]
  by simp

lemma performs_stage6:
  "performs [Open_write (os_path_join out ''merge_info.json'')] (stage6 b a out)"
  unfolding stage6_def dump_json_def by (rule performs_os_call)

lemma performs_merge_try: "performs (pipeline_calls b a out) (merge_try L b a out)"
  unfolding merge_try_def pipeline_calls_def
  using performs_bind [OF performs_stage1, OF performs_bind [OF performs_stage2,
          OF performs_bind [OF performs_stage3, OF performs_bind [OF performs_stage4,
          OF performs_bind [OF performs_stage5, OF performs_bind [OF performs_stage6,
          OF performs_print]]]]]]
  by simp

lemma merge_lora_adapter_calls:
  assumes "merge_lora_adapter L b a out s = (r, s')"
  shows "prefix (new_calls s s') (pipeline_calls b a out)"
    and "r = Inr True \<Longrightarrow> new_calls s s' = pipeline_calls b a out"
proof -
  let ?s0 = "entry_state b s"
  obtain r0 t where tr: "merge_try L b a out ?s0 = (r0, t)" by (cases "merge_try L b a out ?s0")
  from performs_merge_try tr obtain evs where evs: "trace t = trace ?s0 @ evs"
    "case r0 of Inl e \<Rightarrow> prefix (calls_of evs) (pipeline_calls b a out)
       | Inr v \<Rightarrow> calls_of evs = pipeline_calls b a out"
    unfolding performs_def by fastforce
  have "\<exists>tl. trace s' = trace s @ (Stdout (sym_cycle @ '' Loading base model: '' @ b) # evs) @ tl
          \<and> calls_of tl = []"
    using assms tr evs(1)
    by (auto simp: merge_lora_adapter_def entry_state_def emit_def split: sum.splits exn.splits)
  then obtain tl where tl: "trace s' = trace s @ (Stdout (sym_cycle @ '' Loading base model: '' @ b) # evs) @ tl"
    "calls_of tl = []" by blast
  have nc: "new_calls s s' = calls_of evs"
    using new_calls_append [OF tl(1)] tl(2) by (simp add: calls_of_append)
  show "prefix (new_calls s s') (pipeline_calls b a out)"
    using evs(2) nc by (cases r0) simp_all
  show "new_calls s s' = pipeline_calls b a out" if "r = Inr True"
    using that assms tr evs(2) nc
    by (auto simp: merge_lora_adapter_def split: sum.splits exn.splits)
qed

lemmas run_defs = merge_lora_adapter_def merge_try_def stage1_def stage2_def stage3_def
  stage4_def stage5_def stage6_def entry_state_def bind_def extern_def os_call_def print_def ret_def emit_def
  os_makedirs_def dump_json_def makedirs_def write_json_def resolve_def components_def
  stat_def os_path_join_def metadata_def base_load_options_def

lemma stage_failure_Some:
  "stage_failure L b a out s = Some (k, e, t) \<Longrightarrow>
     merge_try L b a out s = (Inl e, t) \<and> 1 \<le> k \<and> k \<le> 6"
  by (auto simp: stage_failure_def merge_try_def bind_def split: prod.splits sum.splits)


lemma find_missing_eq:
  "find_missing a fl s =
     (filter (\<lambda>f. \<not> path_exists (fs s) (os_path_join a f)) fl,
      s\<lparr>trace := trace s @ map (\<lambda>f. Call (Path_exists (os_path_join a f))) fl\<rparr>)"
  by (induction fl arbitrary: s) (simp_all add: os_path_exists_def emit_def)


lemmas main_defs = main_def prints_def banner_lines_def complete_lines_def failed_lines_def
  usage_lines_def required_files_def os_path_exists_def path_exists_def missing_files_def
  merge_start_def Let_def

lemma prints_eq: "prints msgs s = s\<lparr>trace := trace s @ map Stdout msgs\<rparr>"
  unfolding prints_def by (induction msgs arbitrary: s) (simp_all add: emit_def)




lemma stage6_Inr:
  "stage6 b a out s = (Inr u, s') \<Longrightarrow>
     write_json (os_path_join out ''merge_info.json'') (metadata b a) (fs s) = (Inr (), fs s') \<and>
     ext s' = ext s"
  by (auto simp: stage6_def dump_json_def os_call_def split: prod.splits sum.splits)

lemma write_json_Inr:
  assumes "write_json name d fsys = (Inr u, fsys')"
  shows "stat fsys' (resolve name) = Some (File (Json_object d))"
    and "stat fsys (butlast (resolve name)) = Some Dir"
    and "fsys' = fsys(resolve name \<mapsto> File (Json_object d))"
    and "resolve name \<noteq> []"
  using assms
  by (auto simp: write_json_def stat_def split: if_splits option.splits node.splits)

lemma merge_success_chain:
  assumes "merge_lora_adapter L b a out s = (Inr True, s')"
  shows "\<exists>m s1 p s2 mm s3 s4 s5 s6.
     stage1 L b (entry_state b s) = (Inr m, s1) \<and> stage2 L a m s1 = (Inr p, s2) \<and>
     stage3 L p s2 = (Inr mm, s3) \<and> stage4 L out mm s3 = (Inr (), s4) \<and>
     stage5 L a out s4 = (Inr (), s5) \<and> stage6 b a out s5 = (Inr (), s6) \<and>
     fs s' = fs s6 \<and> ext s' = ext s6"
  using assms
  by (auto simp: merge_lora_adapter_def merge_try_def bind_def print_def emit_def
      split: prod.splits sum.splits exn.splits)








lemma performsD:
  "performs cs m \<Longrightarrow> m s = (r, s') \<Longrightarrow>
     \<exists>evs. trace s' = trace s @ evs \<and> prefix (calls_of evs) cs"
  unfolding performs_def by (cases r) fastforce+

lemma reads_onlyD: "reads_only f \<Longrightarrow> f w = (r, (fsys, x)) \<Longrightarrow> fsys = fst w"
  unfolding reads_only_def by (metis fst_conv snd_conv)

lemma extern_fs: "reads_only f \<Longrightarrow> extern c f s = (r, s') \<Longrightarrow> fs s' = fs s"
  by (auto simp: extern_def split: prod.splits dest: reads_onlyD)

lemma stage1_fs: "loads_read_only L \<Longrightarrow> stage1 L b s = (r, s') \<Longrightarrow> fs s' = fs s"
  unfolding stage1_def loads_read_only_def
  by (auto simp: bind_def print_def ret_def emit_def split: prod.splits sum.splits
      dest!: extern_fs [rotated])

lemma stage2_fs: "loads_read_only L \<Longrightarrow> stage2 L a m s = (r, s') \<Longrightarrow> fs s' = fs s"
  unfolding stage2_def loads_read_only_def
  by (auto simp: bind_def print_def ret_def emit_def split: prod.splits sum.splits
      dest!: extern_fs [rotated])

lemma stage3_fs: "loads_read_only L \<Longrightarrow> stage3 L p s = (r, s') \<Longrightarrow> fs s' = fs s"
  unfolding stage3_def loads_read_only_def
  by (auto simp: bind_def print_def ret_def emit_def split: prod.splits sum.splits
      dest!: extern_fs [rotated])

lemma early_cases:
  assumes "stage_failure L b a out s = Some (k, e, t)" "k \<le> 3"
  shows "stage1 L b s = (Inl e, t) \<or>
     (\<exists>m s1. stage1 L b s = (Inr m, s1) \<and> stage2 L a m s1 = (Inl e, t)) \<or>
     (\<exists>m s1 p s2. stage1 L b s = (Inr m, s1) \<and> stage2 L a m s1 = (Inr p, s2) \<and>
        stage3 L p s2 = (Inl e, t))"
  using assms by (auto simp: stage_failure_def split: prod.splits sum.splits)

lemma early_fs:
  assumes "loads_read_only L" "stage_failure L b a out s = Some (k, e, t)" "k \<le> 3"
  shows "fs t = fs s"
  using early_cases [OF assms(2,3)]
  by (auto dest!: stage1_fs [OF assms(1)] stage2_fs [OF assms(1)] stage3_fs [OF assms(1)])

lemma early_calls:
  assumes "stage_failure L b a out s = Some (k, e, t)" "k \<le> 3"
  shows "\<exists>evs. trace t = trace s @ evs \<and>
     prefix (calls_of evs)
       [Model_from_pretrained b base_load_options, Peft_from_pretrained a, Merge_and_unload]"
proof -
  let ?c1 = "Model_from_pretrained b base_load_options"
  let ?c2 = "Peft_from_pretrained a"
  let ?c3 = "Merge_and_unload"
  have p123: "performs [?c1, ?c2, ?c3]
      (bind (stage1 L b) (\<lambda>m. bind (stage2 L a m) (\<lambda>p. stage3 L p)))"
    using performs_bind [OF performs_stage1, OF performs_bind [OF performs_stage2,
      OF performs_stage3]] by simp
  have run: "bind (stage1 L b) (\<lambda>m. bind (stage2 L a m) (\<lambda>p. stage3 L p)) s = (Inl e, t)"
    using early_cases [OF assms] by (auto simp: bind_def)
  from performsD [OF p123 run] show ?thesis .
qed

lemma calls_of_drop_Stderr: "calls_of (drop n [Stderr msg]) = []"
  by (cases n) simp_all

lemma merge_lora_adapter_failure:
  assumes "stage_failure L b a out (entry_state b s) = Some (k, e, t)"
  shows "fs (snd (merge_lora_adapter L b a out s)) = fs t"
    and "ext (snd (merge_lora_adapter L b a out s)) = ext t"
    and "new_calls s (snd (merge_lora_adapter L b a out s)) = new_calls s t"
    and "fst (merge_lora_adapter L b a out s) =
           (case e of PyException d \<Rightarrow> Inr False | PyBaseException d \<Rightarrow> Inl e)"
proof -
  from stage_failure_Some [OF assms] have mt: "merge_try L b a out (entry_state b s) = (Inl e, t)"
    by simp
  show "fs (snd (merge_lora_adapter L b a out s)) = fs t"
    by (cases e) (simp_all add: merge_lora_adapter_def mt emit_def)
  show "ext (snd (merge_lora_adapter L b a out s)) = ext t"
    by (cases e) (simp_all add: merge_lora_adapter_def mt emit_def)
  show "new_calls s (snd (merge_lora_adapter L b a out s)) = new_calls s t"
    by (cases e) (simp_all add: merge_lora_adapter_def mt emit_def new_calls_def new_events_def
        calls_of_append calls_of_drop_Stderr)
  show "fst (merge_lora_adapter L b a out s) =
           (case e of PyException d \<Rightarrow> Inr False | PyBaseException d \<Rightarrow> Inl e)"
    by (cases e) (simp_all add: merge_lora_adapter_def mt)
qed






































section \<open>The claims\<close>




text \<open>
  Claim C2. When \<open>merge_lora_adapter\<close> returns \<open>True\<close>, the file \<^verbatim>\<open>merge_info.json\<close>
  of the output directory holds the JSON document of exactly four fields:
  \<^verbatim>\<open>base_model\<close>, the base model path given; \<^verbatim>\<open>adapter_path\<close>, the adapter path given;
  \<^verbatim>\<open>merged_by\<close>, the fixed \<^verbatim>\<open>rag-dashboard\<close>; \<^verbatim>\<open>dtype\<close>, \<^verbatim>\<open>float16\<close>.
\<close>

theorem merge_info_written:
  "merge_lora_adapter L b a out s = (Inr True, s') \<longrightarrow>
     stat (fs s') (resolve (os_path_join out ''merge_info.json'')) =
       Some (File (Json_object
         [(''base_model'', b), (''adapter_path'', a),
          (''merged_by'', ''rag-dashboard''), (''dtype'', ''float16'')]))"
proof
  assume "merge_lora_adapter L b a out s = (Inr True, s')"
  from merge_success_chain [OF this] obtain s5 s6
    where s6: "stage6 b a out s5 = (Inr (), s6)" and fs: "fs s' = fs s6" and "ext s' = ext s6"
    by blast
  from stage6_Inr [OF s6] have
    "write_json (os_path_join out ''merge_info.json'') (metadata b a) (fs s5) = (Inr (), fs s6)"
    by simp
  from write_json_Inr(1) [OF this] show
    "stat (fs s') (resolve (os_path_join out ''merge_info.json'')) =
       Some (File (Json_object
         [(''base_model'', b), (''adapter_path'', a),
          (''merged_by'', ''rag-dashboard''), (''dtype'', ''float16'')]))"
    by (simp add: fs metadata_def)
qed

theorem merge_info_written_witness:
  "fst (merge_lora_adapter stub_library ''TinyLlama/TinyLlama-1.1B-Chat-v1.0'' ''lora'' ''out''
          adapter_state) = Inr True \<and>
   fs (snd (merge_lora_adapter stub_library ''TinyLlama/TinyLlama-1.1B-Chat-v1.0'' ''lora'' ''out''
          adapter_state)) [''out'', ''merge_info.json''] =
     Some (File (Json_object
       [(''base_model'', ''TinyLlama/TinyLlama-1.1B-Chat-v1.0''), (''adapter_path'', ''lora''),
        (''merged_by'', ''rag-dashboard''), (''dtype'', ''float16'')]))"
proof -
  let ?X = "merge_lora_adapter stub_library ''TinyLlama/TinyLlama-1.1B-Chat-v1.0'' ''lora'' ''out''
          adapter_state"
  have ok: "fst ?X = Inr True"
    by (simp add: run_defs stub_library_def put_file_def adapter_state_def)
  then have run: "?X = (Inr True, snd ?X)" by (simp add: prod_eq_iff)
  have p: "resolve (os_path_join ''out'' ''merge_info.json'') = [''out'', ''merge_info.json'']"
    by (simp add: resolve_def components_def os_path_join_def)
  from merge_info_written [where s' = "snd ?X", THEN mp, OF run]
  show ?thesis using ok by (simp add: p stat_def)
qed



text \<open>
  Claim C4, amended. With fewer than three arguments after the script's name, \<open>main\<close>
  exits with 1 after printing the three lines of the usage message and nothing else: it
  makes no call at all, so that the file system is neither read nor written. Arguments
  after the third are ignored: only fewer than three count as a wrong number.
\<close>

theorem main_usage:
  "(length argv < 4 \<longrightarrow>
      fst (main L argv s) = Exit 1 \<and>
      new_events s (snd (main L argv s)) = map Stdout usage_lines \<and>
      fs (snd (main L argv s)) = fs s \<and> ext (snd (main L argv s)) = ext s) \<and>
   (4 \<le> length argv \<longrightarrow> main L argv s = main L (take 4 argv) s)"
proof (intro conjI impI)
  assume short: "length argv < 4"
  then have m: "main L argv s = (Exit 1, s\<lparr>trace := trace s @ map Stdout usage_lines\<rparr>)"
    by (simp add: main_def prints_eq)
  show "fst (main L argv s) = Exit 1" by (simp add: m)
  show "new_events s (snd (main L argv s)) = map Stdout usage_lines"
    by (simp add: m new_events_def)
  show "fs (snd (main L argv s)) = fs s" by (simp add: m)
  show "ext (snd (main L argv s)) = ext s" by (simp add: m)
next
  assume "4 \<le> length argv"
  then show "main L argv s = main L (take 4 argv) s"
    by (simp add: main_def)
qed

theorem main_usage_witness:
  "length [''merge_model.py'', ''base'', ''lora''] < 4 \<and>
   fst (main stub_library [''merge_model.py'', ''base'', ''lora''] adapter_state) = Exit 1 \<and>
   new_events adapter_state (snd (main stub_library [''merge_model.py'', ''base'', ''lora''] adapter_state)) =
     map Stdout usage_lines \<and>
   4 \<le> length [''merge_model.py'', ''base'', ''lora'', ''out'', ''extra''] \<and>
   main stub_library [''merge_model.py'', ''base'', ''lora'', ''out'', ''extra''] adapter_state =
     main stub_library [''merge_model.py'', ''base'', ''lora'', ''out''] adapter_state"
proof -
  have a: "length [''merge_model.py'', ''base'', ''lora''] < 4" by simp
  have b: "4 \<le> length [''merge_model.py'', ''base'', ''lora'', ''out'', ''extra'']" by simp
  note u = main_usage [where L = stub_library and s = adapter_state
      and argv = "[''merge_model.py'', ''base'', ''lora'']", THEN conjunct1, THEN mp, OF a]
  note v = main_usage [where L = stub_library and s = adapter_state
      and argv = "[''merge_model.py'', ''base'', ''lora'', ''out'', ''extra'']",
      THEN conjunct2, THEN mp, OF b]
  show ?thesis using a b u v by simp
qed

text \<open>
  The claim as it was stated fails for more than three arguments: with a fourth one the
  merge runs and the process exits with 0.
\<close>

theorem main_usage_counterexample:
  "length [''merge_model.py'', ''base'', ''lora'', ''out'', ''extra''] \<noteq> 4 \<and>
   fst (main stub_library [''merge_model.py'', ''base'', ''lora'', ''out'', ''extra''] adapter_state) = Exit 0"
  by (simp add: run_defs main_defs find_missing_eq stub_library_def put_file_def adapter_state_def)

text \<open>
  Claim C5. The six stages run in the order of the source: the calls that a run of
  \<open>merge_lora_adapter\<close> makes are a prefix of \<open>pipeline_calls\<close> (base load, adapter load,
  merge, directory, save of the weights, tokenizer load, tokenizer save, metadata file),
  and all of them when it returns \<open>True\<close>. A stage that raises ends the \<^verbatim>\<open>try\<close> body in
  the very state of the raise, with that exception: nothing of a later stage happens.
\<close>

theorem stages_in_order:
  "(merge_lora_adapter L b a out s = (r, s') \<longrightarrow>
      prefix (new_calls s s') (pipeline_calls b a out) \<and>
      (r = Inr True \<longrightarrow> new_calls s s' = pipeline_calls b a out)) \<and>
   (stage1 L b s0 = (Inl e, t) \<longrightarrow> merge_try L b a out s0 = (Inl e, t)) \<and>
   (stage1 L b s0 = (Inr m, s1) \<and> stage2 L a m s1 = (Inl e, t) \<longrightarrow>
      merge_try L b a out s0 = (Inl e, t)) \<and>
   (stage1 L b s0 = (Inr m, s1) \<and> stage2 L a m s1 = (Inr p, s2) \<and>
    stage3 L p s2 = (Inl e, t) \<longrightarrow>
      merge_try L b a out s0 = (Inl e, t)) \<and>
   (stage1 L b s0 = (Inr m, s1) \<and> stage2 L a m s1 = (Inr p, s2) \<and>
    stage3 L p s2 = (Inr mm, s3) \<and> stage4 L out mm s3 = (Inl e, t) \<longrightarrow>
      merge_try L b a out s0 = (Inl e, t)) \<and>
   (stage1 L b s0 = (Inr m, s1) \<and> stage2 L a m s1 = (Inr p, s2) \<and>
    stage3 L p s2 = (Inr mm, s3) \<and> stage4 L out mm s3 = (Inr u4, s4) \<and>
    stage5 L a out s4 = (Inl e, t) \<longrightarrow>
      merge_try L b a out s0 = (Inl e, t)) \<and>
   (stage1 L b s0 = (Inr m, s1) \<and> stage2 L a m s1 = (Inr p, s2) \<and>
    stage3 L p s2 = (Inr mm, s3) \<and> stage4 L out mm s3 = (Inr u4, s4) \<and>
    stage5 L a out s4 = (Inr u5, s5) \<and> stage6 b a out s5 = (Inl e, t) \<longrightarrow>
      merge_try L b a out s0 = (Inl e, t))"
proof (intro conjI impI)
  assume "merge_lora_adapter L b a out s = (r, s')"
  then show "prefix (new_calls s s') (pipeline_calls b a out)"
    by (rule merge_lora_adapter_calls)
next
  assume "merge_lora_adapter L b a out s = (r, s')" "r = Inr True"
  then show "new_calls s s' = pipeline_calls b a out"
    by (rule merge_lora_adapter_calls)
qed (simp_all add: merge_try_def bind_def)

theorem stages_in_order_witness:
  "fst (merge_lora_adapter stub_library ''base'' ''lora'' ''out'' adapter_state) = Inr True \<and>
   new_calls adapter_state
     (snd (merge_lora_adapter stub_library ''base'' ''lora'' ''out'' adapter_state)) =
     pipeline_calls ''base'' ''lora'' ''out'' \<and>
   stage1 exhausted_library ''base'' adapter_state =
     (Inr ''base'', snd (stage1 exhausted_library ''base'' adapter_state)) \<and>
   stage2 exhausted_library ''lora'' ''base'' (snd (stage1 exhausted_library ''base'' adapter_state)) =
     (Inr (''base'', ''lora''),
      snd (stage2 exhausted_library ''lora'' ''base''
             (snd (stage1 exhausted_library ''base'' adapter_state)))) \<and>
   fst (stage3 exhausted_library (''base'', ''lora'')
          (snd (stage2 exhausted_library ''lora'' ''base''
             (snd (stage1 exhausted_library ''base'' adapter_state))))) =
     Inl (PyException ''CUDA out of memory'') \<and>
   merge_try exhausted_library ''base'' ''lora'' ''out'' adapter_state =
     (Inl (PyException ''CUDA out of memory''),
      snd (stage3 exhausted_library (''base'', ''lora'')
          (snd (stage2 exhausted_library ''lora'' ''base''
             (snd (stage1 exhausted_library ''base'' adapter_state))))))"
proof -
  let ?X = "merge_lora_adapter stub_library ''base'' ''lora'' ''out'' adapter_state"
  let ?s1 = "snd (stage1 exhausted_library ''base'' adapter_state)"
  let ?s2 = "snd (stage2 exhausted_library ''lora'' ''base'' ?s1)"
  let ?t = "snd (stage3 exhausted_library (''base'', ''lora'') ?s2)"
  have ok: "fst ?X = Inr True"
    by (simp add: run_defs stub_library_def put_file_def adapter_state_def)
  have run: "?X = (Inr True, snd ?X)"
    using ok by (simp add: prod_eq_iff)
  have h1: "stage1 exhausted_library ''base'' adapter_state = (Inr ''base'', ?s1)"
    by (simp add: prod_eq_iff run_defs exhausted_library_def stub_library_def put_file_def adapter_state_def)
  have h2: "stage2 exhausted_library ''lora'' ''base'' ?s1 = (Inr (''base'', ''lora''), ?s2)"
    by (simp add: prod_eq_iff run_defs exhausted_library_def stub_library_def put_file_def adapter_state_def)
  have f3: "fst (stage3 exhausted_library (''base'', ''lora'') ?s2) = Inl (PyException ''CUDA out of memory'')"
    by (simp add: run_defs exhausted_library_def stub_library_def put_file_def adapter_state_def)
  have h3: "stage3 exhausted_library (''base'', ''lora'') ?s2 = (Inl (PyException ''CUDA out of memory''), ?t)"
    using f3 by (simp add: prod_eq_iff)
  have c1: "new_calls adapter_state (snd ?X) = pipeline_calls ''base'' ''lora'' ''out''"
    using stages_in_order [where L = stub_library and b = "''base''" and a = "''lora''"
      and out = "''out''" and s = adapter_state and r = "Inr True" and s' = "snd ?X",
      THEN conjunct1] run by simp
  have c2: "merge_try exhausted_library ''base'' ''lora'' ''out'' adapter_state =
     (Inl (PyException ''CUDA out of memory''), ?t)"
    using stages_in_order [where L = exhausted_library and b = "''base''" and a = "''lora''"
      and out = "''out''" and ?s0.0 = adapter_state and m = "''base''" and ?s1.0 = ?s1
      and p = "(''base'', ''lora'')" and ?s2.0 = ?s2 and e = "PyException ''CUDA out of memory''"
      and t = ?t, THEN conjunct2, THEN conjunct2, THEN conjunct2, THEN conjunct1]
      h1 h2 h3 by (rule mp [OF _ conjI [OF _ conjI]])
  show ?thesis using ok c1 h1 h2 f3 c2 by (intro conjI)
qed











text \<open>
  Claim C10, amended. When one of the first three stages (base load, adapter load, merge)
  raises, the script has written nothing itself: it has called neither \<^verbatim>\<open>os.makedirs\<close>
  nor a save nor \<^verbatim>\<open>open\<close>, its only calls are among the three of these stages, and the
  file system is the one that these calls of the library left; it is the file system of
  the start whenever the loading operations of the library do not write, and the output
  path is then as absent as before. The function returns \<open>False\<close> when the exception is
  of class \<^verbatim>\<open>Exception\<close>; another exception leaves the function.
\<close>

theorem early_failure_writes_nothing:
  "stage_failure L b a out (entry_state b s) = Some (k, e, t) \<and> k \<le> 3 \<longrightarrow>
     filter is_write_call (new_calls s (snd (merge_lora_adapter L b a out s))) = [] \<and>
     prefix (new_calls s (snd (merge_lora_adapter L b a out s)))
       [Model_from_pretrained b base_load_options, Peft_from_pretrained a, Merge_and_unload] \<and>
     fs (snd (merge_lora_adapter L b a out s)) = fs t \<and>
     (loads_read_only L \<longrightarrow>
        fs (snd (merge_lora_adapter L b a out s)) = fs s \<and>
        stat (fs (snd (merge_lora_adapter L b a out s))) (resolve out) = stat (fs s) (resolve out)) \<and>
     fst (merge_lora_adapter L b a out s) =
       (case e of PyException d \<Rightarrow> Inr False | PyBaseException d \<Rightarrow> Inl e)"
proof (intro impI)
  assume h: "stage_failure L b a out (entry_state b s) = Some (k, e, t) \<and> k \<le> 3"
  then have sf: "stage_failure L b a out (entry_state b s) = Some (k, e, t)" and k: "k \<le> 3"
    by simp_all
  let ?s' = "snd (merge_lora_adapter L b a out s)"
  let ?three = "[Model_from_pretrained b base_load_options, Peft_from_pretrained a, Merge_and_unload]"
  from early_calls [OF sf k] obtain evs where evs:
    "trace t = trace (entry_state b s) @ evs" "prefix (calls_of evs) ?three"
    by blast
  have "trace t = trace s @ (Stdout (sym_cycle @ '' Loading base model: '' @ b) # evs)"
    using evs(1) by (simp add: entry_state_def emit_def)
  from new_calls_append [OF this] have nt: "new_calls s t = calls_of evs" by simp
  have nc: "new_calls s ?s' = calls_of evs"
    using merge_lora_adapter_failure(3) [OF sf] nt by simp
  have pre: "prefix (new_calls s ?s') ?three" using evs(2) nc by simp
  then have "set (new_calls s ?s') \<subseteq> set ?three" by (rule set_mono_prefix)
  then have nw: "filter is_write_call (new_calls s ?s') = []"
    by (auto simp: filter_empty_conv)
  have fst: "fs ?s' = fs t" by (rule merge_lora_adapter_failure(1) [OF sf])
  have ro: "fs ?s' = fs s" if "loads_read_only L"
    using early_fs [OF that sf k] fst by (simp add: entry_state_def emit_def)
  show "filter is_write_call (new_calls s ?s') = [] \<and>
     prefix (new_calls s ?s') ?three \<and>
     fs ?s' = fs t \<and>
     (loads_read_only L \<longrightarrow> fs ?s' = fs s \<and> stat (fs ?s') (resolve out) = stat (fs s) (resolve out)) \<and>
     fst (merge_lora_adapter L b a out s) =
       (case e of PyException d \<Rightarrow> Inr False | PyBaseException d \<Rightarrow> Inl e)"
    using nw pre fst ro merge_lora_adapter_failure(4) [OF sf] by simp
qed

theorem early_failure_writes_nothing_witness:
  "fst (the (stage_failure exhausted_library ''base'' ''lora'' ''out''
              (entry_state ''base'' adapter_state))) = 3 \<and>
   loads_read_only exhausted_library \<and>
   fs (snd (merge_lora_adapter exhausted_library ''base'' ''lora'' ''out'' adapter_state)) =
     fs adapter_state \<and>
   stat (fs (snd (merge_lora_adapter exhausted_library ''base'' ''lora'' ''out'' adapter_state)))
     (resolve ''out'') = None \<and>
   filter is_write_call
     (new_calls adapter_state
        (snd (merge_lora_adapter exhausted_library ''base'' ''lora'' ''out'' adapter_state))) = [] \<and>
   fst (merge_lora_adapter exhausted_library ''base'' ''lora'' ''out'' adapter_state) = Inr False"
proof -
  let ?F = "stage_failure exhausted_library ''base'' ''lora'' ''out'' (entry_state ''base'' adapter_state)"
  let ?t = "snd (snd (the ?F))"
  let ?X = "merge_lora_adapter exhausted_library ''base'' ''lora'' ''out'' adapter_state"
  have f: "?F = Some (3, PyException ''CUDA out of memory'', ?t)"
    by (simp add: stage_failure_def run_defs exhausted_library_def stub_library_def adapter_state_def)
  have k: "fst (the ?F) = 3" by (subst f) simp
  have ro: "loads_read_only exhausted_library"
    by (simp add: loads_read_only_def reads_only_def exhausted_library_def stub_library_def)
  have h: "?F = Some (3, PyException ''CUDA out of memory'', ?t) \<and> (3 :: nat) \<le> 3"
    using f by simp
  note w = early_failure_writes_nothing [where L = exhausted_library and b = "''base''"
      and a = "''lora''" and out = "''out''" and s = adapter_state and k = 3
      and e = "PyException ''CUDA out of memory''" and t = ?t, THEN mp, OF h]
  have w1: "filter is_write_call (new_calls adapter_state (snd ?X)) = []"
    using w by (rule conjunct1)
  have w4: "fs (snd ?X) = fs adapter_state \<and>
      stat (fs (snd ?X)) (resolve ''out'') = stat (fs adapter_state) (resolve ''out'')"
    using w ro by blast
  have w5: "fst ?X = Inr False"
    using w by simp
  have n: "stat (fs adapter_state) (resolve ''out'') = None"
    by (simp add: adapter_state_def stat_def resolve_def components_def)
  show ?thesis using k ro w1 w4 w5 n by simp
qed

text \<open>
  The claim as it was stated fails in two ways. When the user interrupts the load of the
  base model, the first stage raises and the function does not return. When the library
  keeps the downloaded base model in a cache directory and the adapter then does not fit,
  the second stage raises, the function returns \<open>False\<close>, and the file system has a file
  that it did not have.
\<close>

theorem early_failure_writes_nothing_counterexample:
  "fst (the (stage_failure interrupted_library ''base'' ''lora'' ''out''
              (entry_state ''base'' adapter_state))) = 1 \<and>
   fst (merge_lora_adapter interrupted_library ''base'' ''lora'' ''out'' adapter_state) =
     Inl (PyBaseException ''KeyboardInterrupt'') \<and>
   fst (the (stage_failure caching_library ''base'' ''lora'' ''out''
              (entry_state ''base'' adapter_state))) = 2 \<and>
   fst (merge_lora_adapter caching_library ''base'' ''lora'' ''out'' adapter_state) = Inr False \<and>
   fs adapter_state [''cache'', ''model.bin''] = None \<and>
   fs (snd (merge_lora_adapter caching_library ''base'' ''lora'' ''out'' adapter_state))
     [''cache'', ''model.bin''] = Some (File (Blob 1000))"
  by (simp add: stage_failure_def run_defs interrupted_library_def caching_library_def
      stub_library_def adapter_state_def)

end
